theory Spec2Isabelle
  imports
    Complex_Main
    "HOL-Library.Char_ord"
    "HOL-Library.List_Lexorder"
    "HOL-Library.Product_Lexorder"
    "HOL-Library.Multiset"
    "HOL-Library.AList"
begin

section \<open>JavaScript values used by both services\<close>

text \<open>
  A JavaScript \<open>number\<close> is modelled as an exact rational: sums and the factor \<open>0.15\<close> are
  computed without rounding. Strings are byte lists (UTF-8 for the pictographs of the message
  templates), compared bytewise. A Firestore \<open>Timestamp\<close> is a reading of the clock, a natural
  number.
\<close>

type_synonym timestamp = nat

text \<open>
  An optional property of an object literal built by a caller has three states: the key is
  not there, the key is there with the value \<open>undefined\<close>, or it holds a value. The three
  differ under the spread operator: \<open>{k: d, ...obj}\<close> keeps \<open>d\<close> only when \<open>obj\<close> has no own
  key \<open>k\<close>.
\<close>

datatype 'a property = Absent | Undefined | Val 'a

text \<open>\<open>x || d\<close> for a property whose values are all truthy.\<close>

fun prop_or :: "'a property \<Rightarrow> 'a \<Rightarrow> 'a" where
  "prop_or (Val v) d = v"
| "prop_or Absent d = d"
| "prop_or Undefined d = d"

text \<open>The property \<open>k\<close> of \<open>{k: d, ...obj}\<close>, from the default \<open>d\<close> and \<open>obj\<close>'s own \<open>k\<close>.\<close>

fun spread_prop :: "'a \<Rightarrow> 'a property \<Rightarrow> 'a property" where
  "spread_prop d Absent = Val d"
| "spread_prop d Undefined = Undefined"
| "spread_prop d (Val v) = Val v"

text \<open>
  The same two operators on a document read back from Firestore, where a field is either
  missing (\<open>None\<close>) or holds a value: Firestore stores no \<open>undefined\<close>.
\<close>

fun option_or :: "'a option \<Rightarrow> 'a \<Rightarrow> 'a" where
  "option_or (Some v) d = v"
| "option_or None d = d"

fun spread_option :: "'a \<Rightarrow> 'a option \<Rightarrow> 'a" where
  "spread_option d None = d"
| "spread_option d (Some v) = v"

subsection \<open>Numbers to strings\<close>

definition digit_char :: "nat \<Rightarrow> char" where
  "digit_char d = char_of (48 + d)"

fun string_of_nat :: "nat \<Rightarrow> string" where
  "string_of_nat n =
     (if n < 10 then [digit_char n]
      else string_of_nat (n div 10) @ [digit_char (n mod 10)])"

declare string_of_nat.simps [simp del]

definition string_of_int :: "int \<Rightarrow> string" where
  "string_of_int i =
     (if i < 0 then CHR ''-'' # string_of_nat (nat (- i)) else string_of_nat (nat i))"

text \<open>\<open>s.padStart(n, '0')\<close>.\<close>

definition padStart0 :: "nat \<Rightarrow> string \<Rightarrow> string" where
  "padStart0 n s = replicate (n - length s) CHR ''0'' @ s"

text \<open>\<open>parts.join(sep)\<close>.\<close>

fun join :: "string \<Rightarrow> string list \<Rightarrow> string" where
  "join sep [] = []"
| "join sep [x] = x"
| "join sep (x # y # ys) = x @ sep @ join sep (y # ys)"

text \<open>\<open>s.trim()\<close>, for the ASCII white space the templates and their fields can end in.\<close>

definition is_space :: "char \<Rightarrow> bool" where
  "is_space c = (c = CHR '' '' \<or> c = CHR 0x09 \<or> c = CHR 0x0A \<or> c = CHR 0x0B
                 \<or> c = CHR 0x0C \<or> c = CHR 0x0D)"

definition trim :: "string \<Rightarrow> string" where
  "trim s = rev (dropWhile is_space (rev (dropWhile is_space s)))"

section \<open>The records of \<open>../types\<close>\<close>

datatype Department = Kitchen | Bar

fun department_name :: "Department \<Rightarrow> string" where
  "department_name Kitchen = ''kitchen''"
| "department_name Bar = ''bar''"

text \<open>
  Modelled from the spec: the declarations of \<open>OrderItem\<close>, \<open>MenuItem\<close>, \<open>PendingOrder\<close>,
  \<open>Order\<close> and \<open>TableBill\<close> are in \<open>../types\<close>, which is not among the sources; the fields are
  those of the spec's data model and those the two services read or write.

  \<open>oi_department\<close> is not a declared field of \<open>OrderItem\<close>: it is what the cast
  \<open>(item as any).department\<close> of the notification service reads, \<open>None\<close> when the item has no
  such property.
\<close>

record OrderItem =
  oi_id :: string
  oi_name :: string
  oi_quantity :: rat
  oi_total :: rat
  oi_department :: "string option"

record MenuItem =
  mi_id :: string
  mi_name :: string
  mi_price :: rat
  mi_department :: "Department option"
  mi_userId :: string
  mi_views :: "rat option"
  mi_created_at :: "timestamp option"

record PendingOrder =
  po_id :: string
  po_userId :: string
  po_tableNumber :: string
  po_items :: "OrderItem list"
  po_totalAmount :: rat
  po_timestamp :: timestamp

record Order =
  o_id :: string
  o_userId :: string
  o_tableNumber :: string
  o_items :: "OrderItem list"
  o_totalAmount :: rat
  o_status :: string
  o_paymentStatus :: string
  o_timestamp :: timestamp

section \<open>The document store\<close>

text \<open>
  What the service keeps in Firestore, one list of \<open>(document id, data)\<close> per collection, in
  the order the documents were added. An order document written by \<open>approvePendingOrder\<close>
  carries the pending order's own \<open>id\<close> among its fields (\<open>od_id\<close>), since the approved order
  is built by spreading the pending order.
\<close>

record MenuItemData =
  md_name :: string
  md_price :: rat
  md_department :: "Department option"
  md_userId :: string
  md_views :: "rat option"
  md_created_at :: "timestamp option"

record OrderData =
  od_id :: "string option"
  od_userId :: string
  od_tableNumber :: string
  od_items :: "OrderItem list"
  od_totalAmount :: rat
  od_status :: string
  od_paymentStatus :: string
  od_timestamp :: timestamp

record DepartmentOrderData =
  dd_orderId :: string
  dd_userId :: string
  dd_items :: "OrderItem list"
  dd_status :: string
  dd_createdAt :: timestamp
  dd_department :: Department
  dd_completedAt :: "timestamp option"

record TableBillData =
  tb_userId :: string
  tb_tableNumber :: string
  tb_items :: "OrderItem list"
  tb_subtotal :: rat
  tb_tax :: rat
  tb_total :: rat
  tb_status :: string
  tb_createdAt :: timestamp
  tb_updatedAt :: timestamp

type_synonym File = string

record store =
  db_menuItems :: "(string \<times> MenuItemData) list"
  db_orders :: "(string \<times> OrderData) list"
  db_kitchenOrders :: "(string \<times> DepartmentOrderData) list"
  db_barOrders :: "(string \<times> DepartmentOrderData) list"
  db_tableBills :: "(string \<times> TableBillData) list"
  db_pendingOrders :: "(string \<times> PendingOrder) list"
  db_blobs :: "(string \<times> File) list"
  calls :: nat
  reads :: nat
  created :: nat

text \<open>
  What the service does not decide: whether the \<open>n\<close>-th call to the remote service fails, what
  the \<open>n\<close>-th reading of \<open>Timestamp.now()\<close> is, the id Firestore draws for the \<open>n\<close>-th new
  document, the setting \<open>ignoreUndefinedProperties\<close> of \<open>../config/firebase\<close>, the URL the
  object store gives a path, and the local calendar date \<open>new Date(t)\<close> shows for a time stamp:
  \<open>None\<close> for an invalid date, otherwise \<open>getFullYear()\<close> and \<open>getMonth()\<close>.
\<close>

record env =
  fault :: "nat \<Rightarrow> bool"
  clock :: "nat \<Rightarrow> timestamp"
  newId :: "nat \<Rightarrow> string"
  ignoreUndefinedProperties :: bool
  downloadURL :: "string \<Rightarrow> string"
  calendar :: "timestamp \<Rightarrow> (int \<times> nat) option"

datatype error = Unavailable | InvalidArgument | NotFound

type_synonym 'a result = "(error + 'a) \<times> store"

text \<open>\<open>await\<close> inside \<open>try { ... } catch (error) { console.error(...); throw error; }\<close>: a
  rejected call ends the function with the same error and the store as it is by then.\<close>

definition andThen :: "'a result \<Rightarrow> ('a \<Rightarrow> store \<Rightarrow> 'b result) \<Rightarrow> 'b result" where
  "andThen r f = (case r of (Inl err, s) \<Rightarrow> (Inl err, s) | (Inr x, s) \<Rightarrow> f x s)"

definition now :: "env \<Rightarrow> store \<Rightarrow> timestamp \<times> store" where
  "now e s = (clock e (reads s), s\<lparr>reads := Suc (reads s)\<rparr>)"

text \<open>One round trip: \<open>True\<close> when it fails.\<close>

definition remote :: "env \<Rightarrow> store \<Rightarrow> bool \<times> store" where
  "remote e s = (fault e (calls s), s\<lparr>calls := Suc (calls s)\<rparr>)"

text \<open>\<open>collection(db, name)\<close>: how to read and how to replace the documents of one collection.\<close>

record 'a collection =
  docs_of :: "store \<Rightarrow> (string \<times> 'a) list"
  docs_update :: "((string \<times> 'a) list \<Rightarrow> (string \<times> 'a) list) \<Rightarrow> store \<Rightarrow> store"

definition coll_menuItems :: "MenuItemData collection" where
  "coll_menuItems = \<lparr>docs_of = db_menuItems, docs_update = db_menuItems_update\<rparr>"

definition coll_orders :: "OrderData collection" where
  "coll_orders = \<lparr>docs_of = db_orders, docs_update = db_orders_update\<rparr>"

definition coll_kitchenOrders :: "DepartmentOrderData collection" where
  "coll_kitchenOrders = \<lparr>docs_of = db_kitchenOrders, docs_update = db_kitchenOrders_update\<rparr>"

definition coll_barOrders :: "DepartmentOrderData collection" where
  "coll_barOrders = \<lparr>docs_of = db_barOrders, docs_update = db_barOrders_update\<rparr>"

definition coll_tableBills :: "TableBillData collection" where
  "coll_tableBills = \<lparr>docs_of = db_tableBills, docs_update = db_tableBills_update\<rparr>"

definition coll_pendingOrders :: "PendingOrder collection" where
  "coll_pendingOrders = \<lparr>docs_of = db_pendingOrders, docs_update = db_pendingOrders_update\<rparr>"

text \<open>The collection \<open>`${department}Orders`\<close>.\<close>

fun coll_departmentOrders :: "Department \<Rightarrow> DepartmentOrderData collection" where
  "coll_departmentOrders Kitchen = coll_kitchenOrders"
| "coll_departmentOrders Bar = coll_barOrders"

subsection \<open>The calls of the Firestore client\<close>

text \<open>
  \<open>addDoc\<close> appends a document under a new id. \<open>updateDoc\<close> changes the fields of an existing
  document and fails on a missing one. \<open>deleteDoc\<close> removes a document and succeeds on a
  missing one. \<open>getDocs\<close> returns the documents a query selects. A query without \<open>orderBy\<close>
  lists its documents by ascending id; \<open>orderBy(field, 'desc')\<close> lists them by descending
  field, equal fields by descending id.
\<close>

definition addDoc :: "env \<Rightarrow> 'a collection \<Rightarrow> 'a \<Rightarrow> store \<Rightarrow> string result" where
  "addDoc e c data s =
     (case remote e s of
        (True, s') \<Rightarrow> (Inl Unavailable, s')
      | (False, s') \<Rightarrow>
          (let docId = newId e (created s')
           in (Inr docId,
               docs_update c (\<lambda>ds. ds @ [(docId, data)]) (s'\<lparr>created := Suc (created s')\<rparr>))))"

definition updateDoc ::
  "env \<Rightarrow> 'a collection \<Rightarrow> string \<Rightarrow> ('a \<Rightarrow> 'a) \<Rightarrow> store \<Rightarrow> unit result" where
  "updateDoc e c docId change s =
     (case remote e s of
        (True, s') \<Rightarrow> (Inl Unavailable, s')
      | (False, s') \<Rightarrow>
          (if docId \<in> fst ` set (docs_of c s')
           then (Inr (),
                 docs_update c (map (\<lambda>(i, d). if i = docId then (i, change d) else (i, d))) s')
           else (Inl NotFound, s')))"

definition deleteDoc :: "env \<Rightarrow> 'a collection \<Rightarrow> string \<Rightarrow> store \<Rightarrow> unit result" where
  "deleteDoc e c docId s =
     (case remote e s of
        (True, s') \<Rightarrow> (Inl Unavailable, s')
      | (False, s') \<Rightarrow> (Inr (), docs_update c (filter (\<lambda>(i, d). i \<noteq> docId)) s'))"

definition byId :: "(string \<times> 'a) list \<Rightarrow> (string \<times> 'a) list" where
  "byId ds = sort_key fst ds"

definition orderByDesc :: "('a \<Rightarrow> timestamp) \<Rightarrow> (string \<times> 'a) list \<Rightarrow> (string \<times> 'a) list" where
  "orderByDesc field ds = rev (sort_key (\<lambda>(i, d). (field d, i)) ds)"

definition getDocs ::
  "env \<Rightarrow> 'a collection \<Rightarrow> ((string \<times> 'a) list \<Rightarrow> (string \<times> 'a) list) \<Rightarrow> store
     \<Rightarrow> (string \<times> 'a) list result" where
  "getDocs e c q s =
     (case remote e s of
        (True, s') \<Rightarrow> (Inl Unavailable, s')
      | (False, s') \<Rightarrow> (Inr (q (docs_of c s')), s'))"

section \<open>OrderLedger: the pure part\<close>

text \<open>
  \<open>splitItemsByDepartment\<close>: the \<open>forEach\<close> pushes each item on one of two arrays, the bar's
  when the first menu item with the item's id is tagged \<open>bar\<close>, the kitchen's otherwise
  (also when \<open>find\<close> returns \<open>undefined\<close>).
\<close>

definition goes_to_bar :: "MenuItem list \<Rightarrow> OrderItem \<Rightarrow> bool" where
  "goes_to_bar menuItems item =
     (case find (\<lambda>mi. mi_id mi = oi_id item) menuItems of
        None \<Rightarrow> False
      | Some menuItem \<Rightarrow> mi_department menuItem = Some Bar)"

fun split_loop ::
  "MenuItem list \<Rightarrow> OrderItem list \<Rightarrow> OrderItem list \<times> OrderItem list
     \<Rightarrow> OrderItem list \<times> OrderItem list" where
  "split_loop menuItems [] acc = acc"
| "split_loop menuItems (item # rest) (kitchenItems, barItems) =
     (if goes_to_bar menuItems item
      then split_loop menuItems rest (kitchenItems, barItems @ [item])
      else split_loop menuItems rest (kitchenItems @ [item], barItems))"

definition splitItemsByDepartment ::
  "OrderItem list \<Rightarrow> MenuItem list \<Rightarrow> OrderItem list \<times> OrderItem list" where
  "splitItemsByDepartment items menuItems = split_loop menuItems items ([], [])"

section \<open>OrderLedger: the operations\<close>

subsection \<open>Menu items\<close>

definition menuItem_of_doc :: "string \<times> MenuItemData \<Rightarrow> MenuItem" where
  "menuItem_of_doc doc =
     (case doc of (docId, d) \<Rightarrow>
        \<lparr>mi_id = docId,
         mi_name = md_name d,
         mi_price = md_price d,
         mi_department = Some (spread_option (option_or (md_department d) Kitchen) (md_department d)),
         mi_userId = md_userId d,
         mi_views = md_views d,
         mi_created_at = md_created_at d\<rparr>)"

definition getMenuItems :: "env \<Rightarrow> string \<Rightarrow> store \<Rightarrow> MenuItem list result" where
  "getMenuItems e userId s =
     andThen (getDocs e coll_menuItems (\<lambda>ds. byId (filter (\<lambda>(i, d). md_userId d = userId) ds)) s)
       (\<lambda>docs s'. (Inr (map menuItem_of_doc docs), s'))"

text \<open>
  The argument of \<open>addMenuItem\<close>, an object literal of the caller typed \<open>Omit<MenuItem, 'id'>\<close>.
  Its \<open>department\<close> has the three states of an optional property.
\<close>

record MenuItemInput =
  in_name :: string
  in_price :: rat
  in_department :: "Department property"
  in_userId :: string
  in_views :: "rat option"

text \<open>
  The \<open>department\<close> of the object \<open>addMenuItem\<close> hands to \<open>addDoc\<close>:
  \<open>{department: item.department || 'kitchen', ...item, created_at: Timestamp.now()}\<close>.
\<close>

definition addMenuItem_department :: "MenuItemInput \<Rightarrow> Department property" where
  "addMenuItem_department item =
     spread_prop (prop_or (in_department item) Kitchen) (in_department item)"

text \<open>
  Firestore checks the data before it sends them: a field that is \<open>undefined\<close> is refused,
  or left out when \<open>ignoreUndefinedProperties\<close> is set.
\<close>

definition serialize :: "env \<Rightarrow> 'a property \<Rightarrow> error + 'a option" where
  "serialize e p =
     (case p of
        Absent \<Rightarrow> Inr None
      | Val v \<Rightarrow> Inr (Some v)
      | Undefined \<Rightarrow> if ignoreUndefinedProperties e then Inr None else Inl InvalidArgument)"

definition addMenuItem :: "env \<Rightarrow> MenuItemInput \<Rightarrow> store \<Rightarrow> string result" where
  "addMenuItem e item s =
     (let department = addMenuItem_department item;
          (created_at, s1) = now e s
      in case serialize e department of
           Inl err \<Rightarrow> (Inl err, s1)
         | Inr dep \<Rightarrow>
             addDoc e coll_menuItems
               \<lparr>md_name = in_name item,
                md_price = in_price item,
                md_department = dep,
                md_userId = in_userId item,
                md_views = in_views item,
                md_created_at = Some created_at\<rparr> s1)"

subsection \<open>Orders\<close>

definition addOrder :: "env \<Rightarrow> OrderData \<Rightarrow> store \<Rightarrow> string result" where
  "addOrder e order s =
     (let (t, s1) = now e s in addDoc e coll_orders (order\<lparr>od_timestamp := t\<rparr>) s1)"

definition order_of_doc :: "string \<times> OrderData \<Rightarrow> Order" where
  "order_of_doc doc =
     (case doc of (docId, d) \<Rightarrow>
        \<lparr>o_id = spread_option docId (od_id d),
         o_userId = od_userId d,
         o_tableNumber = od_tableNumber d,
         o_items = od_items d,
         o_totalAmount = od_totalAmount d,
         o_status = od_status d,
         o_paymentStatus = od_paymentStatus d,
         o_timestamp = od_timestamp d\<rparr>)"

definition getOrders :: "env \<Rightarrow> string \<Rightarrow> store \<Rightarrow> Order list result" where
  "getOrders e userId s =
     andThen
       (getDocs e coll_orders
          (\<lambda>ds. orderByDesc od_timestamp (filter (\<lambda>(i, d). od_userId d = userId) ds)) s)
       (\<lambda>docs s'. (Inr (map order_of_doc docs), s'))"

subsection \<open>Department orders\<close>

definition sendToDepartment ::
  "env \<Rightarrow> string \<Rightarrow> string \<Rightarrow> OrderItem list \<Rightarrow> Department \<Rightarrow> store \<Rightarrow> unit result" where
  "sendToDepartment e orderId userId items department s =
     (let (t, s1) = now e s
      in andThen
           (addDoc e (coll_departmentOrders department)
              \<lparr>dd_orderId = orderId,
               dd_userId = userId,
               dd_items = items,
               dd_status = ''pending'',
               dd_createdAt = t,
               dd_department = department,
               dd_completedAt = None\<rparr> s1)
           (\<lambda>docId s2. (Inr (), s2)))"

text \<open>
  What \<open>getKitchenOrders\<close> and \<open>getBarOrders\<close> return for one document:
  \<open>{id: doc.id, ...doc.data(), timestamp: doc.data().createdAt}\<close>.
\<close>

record DepartmentOrder =
  do_id :: string
  do_orderId :: string
  do_userId :: string
  do_items :: "OrderItem list"
  do_status :: string
  do_createdAt :: timestamp
  do_department :: Department
  do_completedAt :: "timestamp option"
  do_timestamp :: timestamp

definition departmentOrder_of_doc :: "string \<times> DepartmentOrderData \<Rightarrow> DepartmentOrder" where
  "departmentOrder_of_doc doc =
     (case doc of (docId, d) \<Rightarrow>
        \<lparr>do_id = docId,
         do_orderId = dd_orderId d,
         do_userId = dd_userId d,
         do_items = dd_items d,
         do_status = dd_status d,
         do_createdAt = dd_createdAt d,
         do_department = dd_department d,
         do_completedAt = dd_completedAt d,
         do_timestamp = dd_createdAt d\<rparr>)"

definition getKitchenOrders :: "env \<Rightarrow> string \<Rightarrow> store \<Rightarrow> DepartmentOrder list result" where
  "getKitchenOrders e userId s =
     andThen
       (getDocs e coll_kitchenOrders
          (\<lambda>ds. orderByDesc dd_createdAt (filter (\<lambda>(i, d). dd_userId d = userId) ds)) s)
       (\<lambda>docs s'. (Inr (map departmentOrder_of_doc docs), s'))"

definition getBarOrders :: "env \<Rightarrow> string \<Rightarrow> store \<Rightarrow> DepartmentOrder list result" where
  "getBarOrders e userId s =
     andThen
       (getDocs e coll_barOrders
          (\<lambda>ds. orderByDesc dd_createdAt (filter (\<lambda>(i, d). dd_userId d = userId) ds)) s)
       (\<lambda>docs s'. (Inr (map departmentOrder_of_doc docs), s'))"

definition markOrderAsComplete :: "env \<Rightarrow> string \<Rightarrow> Department \<Rightarrow> store \<Rightarrow> unit result" where
  "markOrderAsComplete e orderId department s =
     andThen
       (getDocs e (coll_departmentOrders department)
          (\<lambda>ds. take 1 (byId (filter (\<lambda>(i, d). dd_orderId d = orderId) ds))) s)
       (\<lambda>docs s1.
          case docs of
            [] \<Rightarrow> (Inr (), s1)
          | (docId, d) # rest \<Rightarrow>
              (let (t, s2) = now e s1
               in updateDoc e (coll_departmentOrders department) docId
                    (\<lambda>d. d\<lparr>dd_status := ''completed'', dd_completedAt := Some t\<rparr>) s2))"

subsection \<open>Table bills\<close>

text \<open>\<open>getTableBill\<close> returns \<open>null\<close> or \<open>{id: docs[0].id, ...docs[0].data()}\<close>, here the pair.\<close>

definition getTableBill ::
  "env \<Rightarrow> string \<Rightarrow> string \<Rightarrow> store \<Rightarrow> (string \<times> TableBillData) option result" where
  "getTableBill e userId tableNumber s =
     andThen
       (getDocs e coll_tableBills
          (\<lambda>ds. take 1 (byId (filter
             (\<lambda>(i, d). tb_userId d = userId \<and> tb_tableNumber d = tableNumber
                        \<and> tb_status d = ''active'') ds))) s)
       (\<lambda>docs s'. (Inr (case docs of [] \<Rightarrow> None | doc # rest \<Rightarrow> Some doc), s'))"

definition addToTableBill ::
  "env \<Rightarrow> string \<Rightarrow> string \<Rightarrow> OrderItem list \<Rightarrow> store \<Rightarrow> unit result" where
  "addToTableBill e userId tableNumber items s =
     andThen (getTableBill e userId tableNumber s)
       (\<lambda>existingBill s1.
          let subtotal = foldl (\<lambda>sum item. sum + oi_total item) 0 items;
              tax = subtotal * (15 / 100);
              total = subtotal + tax
          in case existingBill of
               Some (billId, bill) \<Rightarrow>
                 (let (t, s2) = now e s1
                  in updateDoc e coll_tableBills billId
                       (\<lambda>d. d\<lparr>tb_items := tb_items bill @ items,
                               tb_subtotal := tb_subtotal bill + subtotal,
                               tb_tax := tb_tax bill + tax,
                               tb_total := tb_total bill + total,
                               tb_updatedAt := t\<rparr>) s2)
             | None \<Rightarrow>
                 (let (t1, s2) = now e s1;
                      (t2, s3) = now e s2
                  in andThen
                       (addDoc e coll_tableBills
                          \<lparr>tb_userId = userId,
                           tb_tableNumber = tableNumber,
                           tb_items = items,
                           tb_subtotal = subtotal,
                           tb_tax = tax,
                           tb_total = total,
                           tb_status = ''active'',
                           tb_createdAt = t1,
                           tb_updatedAt = t2\<rparr> s3)
                       (\<lambda>docId s4. (Inr (), s4))))"

subsection \<open>Approving a pending order\<close>

definition approvePendingOrder :: "env \<Rightarrow> string \<Rightarrow> PendingOrder \<Rightarrow> store \<Rightarrow> string result" where
  "approvePendingOrder e pendingOrderId pendingOrder s =
     (let (t, s1) = now e s;
          approvedOrder =
            \<lparr>od_id = Some (po_id pendingOrder),
             od_userId = po_userId pendingOrder,
             od_tableNumber = po_tableNumber pendingOrder,
             od_items = po_items pendingOrder,
             od_totalAmount = po_totalAmount pendingOrder,
             od_status = ''approved'',
             od_paymentStatus = ''pending'',
             od_timestamp = t\<rparr>
      in andThen (addOrder e approvedOrder s1) (\<lambda>orderId s2.
         andThen (getMenuItems e (po_userId pendingOrder) s2) (\<lambda>menuItems s3.
           let (kitchenItems, barItems) =
                 splitItemsByDepartment (po_items pendingOrder) menuItems
           in andThen
                (if length kitchenItems > 0
                 then sendToDepartment e orderId (po_userId pendingOrder) kitchenItems Kitchen s3
                 else (Inr (), s3)) (\<lambda>u s4.
              andThen
                (if length barItems > 0
                 then sendToDepartment e orderId (po_userId pendingOrder) barItems Bar s4
                 else (Inr (), s4)) (\<lambda>u s5.
              andThen
                (addToTableBill e (po_userId pendingOrder) (po_tableNumber pendingOrder)
                   (po_items pendingOrder) s5) (\<lambda>u s6.
              andThen (deleteDoc e coll_pendingOrders pendingOrderId s6) (\<lambda>u s7.
                (Inr orderId, s7))))))))"

subsection \<open>Images\<close>

definition uploadImage :: "env \<Rightarrow> File \<Rightarrow> string \<Rightarrow> store \<Rightarrow> string result" where
  "uploadImage e file path s =
     (case remote e s of
        (True, s1) \<Rightarrow> (Inl Unavailable, s1)
      | (False, s1) \<Rightarrow>
          (case remote e (s1\<lparr>db_blobs := AList.update path file (db_blobs s1)\<rparr>) of
             (True, s2) \<Rightarrow> (Inl Unavailable, s2)
           | (False, s2) \<Rightarrow> (Inr (downloadURL e path), s2)))"

subsection \<open>Statistics\<close>

text \<open>
  A plain object used as a dictionary (\<open>itemOrderCounts\<close>, \<open>monthlyData\<close>) is an association
  list in the order the keys were first set. \<open>Object.entries\<close> lists the keys that are array
  indices first, by ascending number, then the other keys in the order they were set. Keys
  that name a member of \<open>Object.prototype\<close> are left out of the model.
\<close>

definition is_digit :: "char \<Rightarrow> bool" where
  "is_digit c = (48 \<le> (of_char c :: nat) \<and> (of_char c :: nat) \<le> 57)"

definition nat_of_digits :: "string \<Rightarrow> nat" where
  "nat_of_digits cs = foldl (\<lambda>n c. 10 * n + (of_char c - 48)) 0 cs"

definition is_array_index :: "string \<Rightarrow> bool" where
  "is_array_index k =
     (k \<noteq> [] \<and> list_all is_digit k \<and> string_of_nat (nat_of_digits k) = k
      \<and> nat_of_digits k < 4294967295)"

definition object_entries :: "(string \<times> 'a) list \<Rightarrow> (string \<times> 'a) list" where
  "object_entries obj =
     sort_key (\<lambda>(k, v). nat_of_digits k) (filter (\<lambda>(k, v). is_array_index k) obj)
     @ filter (\<lambda>(k, v). \<not> is_array_index k) obj"

text \<open>\<open>x || d\<close> for a number that may be missing: \<open>0\<close> is falsy as well.\<close>

fun num_or :: "rat option \<Rightarrow> rat \<Rightarrow> rat" where
  "num_or None d = d"
| "num_or (Some v) d = (if v = 0 then d else v)"

text \<open>
  The key \<open>`${date.getFullYear()}-${String(date.getMonth() + 1).padStart(2, '0')}`\<close>; both
  numbers are \<open>NaN\<close> for an invalid date.
\<close>

fun monthKey :: "(int \<times> nat) option \<Rightarrow> string" where
  "monthKey None = ''NaN-NaN''"
| "monthKey (Some (year, month)) =
     string_of_int year @ ''-'' @ padStart0 2 (string_of_nat (month + 1))"

record MonthlyRevenue =
  mr_month :: string
  mr_revenue :: rat

definition monthlyData_add :: "env \<Rightarrow> (string \<times> rat) list \<Rightarrow> Order \<Rightarrow> (string \<times> rat) list" where
  "monthlyData_add e monthlyData order =
     (let key = monthKey (calendar e (o_timestamp order))
      in AList.update key (num_or (map_of monthlyData key) 0 + o_totalAmount order) monthlyData)"

text \<open>\<open>xs.slice(-n)\<close>.\<close>

definition slice_last :: "nat \<Rightarrow> 'a list \<Rightarrow> 'a list" where
  "slice_last n xs = drop (length xs - n) xs"

text \<open>
  \<open>sort\<close> is stable; \<open>localeCompare\<close> on month keys is taken as the bytewise order of the
  strings.
\<close>

definition calculateMonthlyRevenue :: "env \<Rightarrow> Order list \<Rightarrow> MonthlyRevenue list" where
  "calculateMonthlyRevenue e orders =
     (let monthlyData = foldl (monthlyData_add e) [] orders
      in slice_last 6
           (sort_key mr_month
              (map (\<lambda>(month, revenue). \<lparr>mr_month = month, mr_revenue = revenue\<rparr>)
                 (object_entries monthlyData))))"

record ItemCount =
  ic_name :: string
  ic_orders :: rat

record PopularItem =
  pi_id :: string
  pi_name :: string
  pi_orders :: rat

record MenuStats =
  totalOrders :: nat
  totalRevenue :: rat
  totalViews :: rat
  popularItems :: "PopularItem list"
  recentOrders :: "Order list"
  monthlyRevenue :: "MonthlyRevenue list"

definition count_item ::
  "MenuItem list \<Rightarrow> (string \<times> ItemCount) list \<Rightarrow> OrderItem \<Rightarrow> (string \<times> ItemCount) list" where
  "count_item menuItems itemOrderCounts item =
     (let counts =
            (case map_of itemOrderCounts (oi_id item) of
               Some c \<Rightarrow> itemOrderCounts
             | None \<Rightarrow>
                 AList.update (oi_id item)
                   \<lparr>ic_name =
                      (case find (\<lambda>mi. mi_id mi = oi_id item) menuItems of
                         None \<Rightarrow> oi_name item
                       | Some menuItem \<Rightarrow>
                           if mi_name menuItem = [] then oi_name item else mi_name menuItem),
                    ic_orders = 0\<rparr> itemOrderCounts)
      in AList.map_entry (oi_id item)
           (\<lambda>c. c\<lparr>ic_orders := ic_orders c + oi_quantity item\<rparr>) counts)"

definition computeStats :: "env \<Rightarrow> Order list \<Rightarrow> MenuItem list \<Rightarrow> MenuStats" where
  "computeStats e orders menuItems =
     (let itemOrderCounts =
            foldl (\<lambda>counts order. foldl (count_item menuItems) counts (o_items order)) [] orders
      in \<lparr>totalOrders = length orders,
          totalRevenue = foldl (\<lambda>sum order. sum + o_totalAmount order) 0 orders,
          totalViews = foldl (\<lambda>sum item. sum + num_or (mi_views item) 0) 0 menuItems,
          popularItems =
            take 5
              (sort_key (\<lambda>p. - pi_orders p)
                 (map (\<lambda>(k, c). \<lparr>pi_id = k, pi_name = ic_name c, pi_orders = ic_orders c\<rparr>)
                    (object_entries itemOrderCounts))),
          recentOrders = take 10 orders,
          monthlyRevenue = calculateMonthlyRevenue e orders\<rparr>)"

definition emptyStats :: MenuStats where
  "emptyStats =
     \<lparr>totalOrders = 0, totalRevenue = 0, totalViews = 0, popularItems = [],
      recentOrders = [], monthlyRevenue = []\<rparr>"

text \<open>
  The body of the \<open>try\<close>: \<open>Promise.all\<close> starts both reads and rejects when one of them
  does.
\<close>

definition getMenuStats_try :: "env \<Rightarrow> string \<Rightarrow> store \<Rightarrow> MenuStats result" where
  "getMenuStats_try e userId s =
     (let (r1, s1) = getOrders e userId s;
          (r2, s2) = getMenuItems e userId s1
      in case r1 of
           Inl err \<Rightarrow> (Inl err, s2)
         | Inr orders \<Rightarrow>
             (case r2 of
                Inl err \<Rightarrow> (Inl err, s2)
              | Inr menuItems \<Rightarrow> (Inr (computeStats e orders menuItems), s2)))"

text \<open>The \<open>catch\<close> of \<open>getMenuStats\<close> returns the empty statistics.\<close>

definition getMenuStats :: "env \<Rightarrow> string \<Rightarrow> store \<Rightarrow> MenuStats result" where
  "getMenuStats e userId s =
     (case getMenuStats_try e userId s of
        (Inl err, s') \<Rightarrow> (Inr emptyStats, s')
      | (Inr stats, s') \<Rightarrow> (Inr stats, s'))"



section \<open>NotificationDispatcher\<close>

text \<open>
  The messaging API is outside the service. A request is what \<open>axios.post\<close> is given; the
  answer is either a reply with its \<open>ok\<close> flag or a rejected promise, and may depend on the
  requests issued before. The state of the service's surroundings is the list of requests
  issued so far.
\<close>

record button =
  btn_text :: string
  btn_callback_data :: string

datatype request =
    SendMessage int string string "button list list option"
  | SendPhoto string File string string

datatype response = Replied bool | Rejected

type_synonym api = "request list \<Rightarrow> request \<Rightarrow> response"

definition axios_post :: "api \<Rightarrow> request \<Rightarrow> request list \<Rightarrow> response \<times> request list" where
  "axios_post respond req sent = (respond sent req, sent @ [req])"

definition GROUP_CHAT_ID :: int where
  "GROUP_CHAT_ID = - 1002701066037"

text \<open>
  How numbers and dates are printed is left open: \<open>n.toFixed(2)\<close>, \<open>`${n}`\<close> and
  \<open>new Date(t).toLocaleString()\<close>.
\<close>

record fmt =
  toFixed2 :: "rat \<Rightarrow> string"
  numString :: "rat \<Rightarrow> string"
  toLocaleString :: "timestamp \<Rightarrow> string"

definition pic_bullet :: string where
  "pic_bullet = [CHR 0xE2, CHR 0x80, CHR 0xA2]"


definition pic_clock :: string where
  "pic_clock = [CHR 0xF0, CHR 0x9F, CHR 0x95, CHR 0x90]"

definition pic_check :: string where
  "pic_check = [CHR 0xE2, CHR 0x9C, CHR 0x85]"


definition pic_cook :: string where
  "pic_cook = [CHR 0xF0, CHR 0x9F, CHR 0x91, CHR 0xA8, CHR 0xE2, CHR 0x80, CHR 0x8D,
               CHR 0xF0, CHR 0x9F, CHR 0x8D, CHR 0xB3]"

definition pic_drink :: string where
  "pic_drink = [CHR 0xF0, CHR 0x9F, CHR 0x8D, CHR 0xB9]"

definition pic_clipboard :: string where
  "pic_clipboard = [CHR 0xF0, CHR 0x9F, CHR 0x93, CHR 0x8B]"

definition pic_alarm :: string where
  "pic_alarm = [CHR 0xE2, CHR 0x8F, CHR 0xB0]"



definition sendMessage :: "api \<Rightarrow> string \<Rightarrow> request list \<Rightarrow> bool \<times> request list" where
  "sendMessage respond message sent =
     (case axios_post respond (SendMessage GROUP_CHAT_ID message ''HTML'' None) sent of
        (Replied ok, sent') \<Rightarrow> (ok, sent')
      | (Rejected, sent') \<Rightarrow> (False, sent'))"


definition sendMessageWithButtons ::
  "api \<Rightarrow> int \<Rightarrow> string \<Rightarrow> button list list \<Rightarrow> request list \<Rightarrow> bool \<times> request list" where
  "sendMessageWithButtons respond chatId message buttons sent =
     (case axios_post respond (SendMessage chatId message ''HTML'' (Some buttons)) sent of
        (Replied ok, sent') \<Rightarrow> (ok, sent')
      | (Rejected, sent') \<Rightarrow> (False, sent'))"

definition departmentItems_of :: "Order \<Rightarrow> Department \<Rightarrow> OrderItem list" where
  "departmentItems_of order department =
     filter (\<lambda>item. oi_department item = Some (department_name department)) (o_items order)"

definition departmentMessage :: "fmt \<Rightarrow> Order \<Rightarrow> Department \<Rightarrow> OrderItem list \<Rightarrow> string" where
  "departmentMessage f order department departmentItems =
     (let orderItems =
            join ''\<newline>''
              (map (\<lambda>item. pic_bullet @ '' '' @ oi_name item @ '' x''
                             @ numString f (oi_quantity item)) departmentItems);
          emoji = (if department = Kitchen then pic_cook else pic_drink);
          departmentName = (if department = Kitchen then ''Kitchen'' else ''Bar'')
      in trim
           (''\<newline>'' @ emoji @ '' <b>'' @ departmentName @ '' Order - Table ''
            @ o_tableNumber order @ ''</b>\<newline>\<newline>'' @ orderItems
            @ ''\<newline>\<newline>'' @ pic_clock @ '' <b>Time:</b> ''
            @ toLocaleString f (o_timestamp order)
            @ ''\<newline>'' @ pic_clipboard @ '' <b>Order ID:</b> '' @ take 8 (o_id order)
            @ ''\<newline>\<newline><b>Status: APPROVED - Start Preparation</b>\<newline>    ''))"

definition departmentButtons :: "Order \<Rightarrow> Department \<Rightarrow> button list list" where
  "departmentButtons order department =
     [[\<lparr>btn_text = pic_check @ '' Ready'',
        btn_callback_data = ''ready_'' @ department_name department @ ''_'' @ o_id order\<rparr>,
       \<lparr>btn_text = pic_alarm @ '' Delay'',
        btn_callback_data = ''delay_'' @ department_name department @ ''_'' @ o_id order\<rparr>]]"

definition sendOrderToDepartment ::
  "fmt \<Rightarrow> api \<Rightarrow> Order \<Rightarrow> Department \<Rightarrow> request list \<Rightarrow> bool \<times> request list" where
  "sendOrderToDepartment f respond order department sent =
     (let departmentItems = departmentItems_of order department
      in if length departmentItems = 0 then (True, sent)
         else sendMessageWithButtons respond GROUP_CHAT_ID
                (departmentMessage f order department departmentItems)
                (departmentButtons order department) sent)"






section \<open>Example data\<close>

definition ex_pizza :: OrderItem where
  "ex_pizza = \<lparr>oi_id = ''m1'', oi_name = ''Pizza'', oi_quantity = 2, oi_total = 20,
               oi_department = None\<rparr>"

definition ex_salad :: OrderItem where
  "ex_salad = \<lparr>oi_id = ''m9'', oi_name = ''Salad'', oi_quantity = 1, oi_total = 10,
               oi_department = None\<rparr>"

definition ex_beer :: OrderItem where
  "ex_beer = \<lparr>oi_id = ''m2'', oi_name = ''Beer'', oi_quantity = 3, oi_total = 12,
              oi_department = None\<rparr>"

definition ex_menu :: "MenuItem list" where
  "ex_menu =
     [\<lparr>mi_id = ''m1'', mi_name = ''Pizza'', mi_price = 10, mi_department = Some Kitchen,
       mi_userId = ''u1'', mi_views = Some 4, mi_created_at = None\<rparr>,
      \<lparr>mi_id = ''m2'', mi_name = ''Beer'', mi_price = 4, mi_department = Some Bar,
       mi_userId = ''u1'', mi_views = None, mi_created_at = None\<rparr>]"

definition ex_order :: Order where
  "ex_order =
     \<lparr>o_id = ''order-0001-abc'', o_userId = ''u1'', o_tableNumber = ''7'',
      o_items = [ex_pizza, ex_salad, ex_beer], o_totalAmount = 42, o_status = ''approved'',
      o_paymentStatus = ''pending'', o_timestamp = 1000\<rparr>"

text \<open>An order whose only item carries a \<open>department\<close> property of its own.\<close>

definition ex_tagged_order :: Order where
  "ex_tagged_order = ex_order\<lparr>o_items := [ex_pizza\<lparr>oi_department := Some ''kitchen''\<rparr>]\<rparr>"

text \<open>A messaging API that rejects every photo and accepts every text message.\<close>

definition ex_respond :: api where
  "ex_respond sent req =
     (case req of SendPhoto chat photo caption mode \<Rightarrow> Rejected
      | SendMessage chat msg mode keyboard \<Rightarrow> Replied True)"

definition ex_fmt :: fmt where
  "ex_fmt = \<lparr>toFixed2 = (\<lambda>n. ''0.00''), numString = (\<lambda>n. ''1''),
             toLocaleString = (\<lambda>t. ''now'')\<rparr>"

text \<open>
  Surroundings in which no call fails, \<open>undefined\<close> fields are refused, and new documents
  get the ids \<open>a0\<close>, \<open>a1\<close>, ...; a store with two menu items, the first without a department,
  and one pending order.
\<close>

definition ex_env :: env where
  "ex_env =
     \<lparr>fault = (\<lambda>n. False), clock = (\<lambda>n. 100 + n),
      newId = (\<lambda>n. [''a0'', ''a1'', ''a2'', ''a3'', ''a4''] ! (n mod 5)),
      ignoreUndefinedProperties = False, downloadURL = (\<lambda>path. ''https://files/'' @ path),
      calendar = (\<lambda>t. Some (2024, 0))\<rparr>"

definition ex_pending :: PendingOrder where
  "ex_pending =
     \<lparr>po_id = ''p1'', po_userId = ''u1'', po_tableNumber = ''7'',
      po_items = [ex_pizza, ex_salad, ex_beer], po_totalAmount = 42, po_timestamp = 90\<rparr>"

definition ex_store :: store where
  "ex_store =
     \<lparr>db_menuItems =
        [(''m1'', \<lparr>md_name = ''Pizza'', md_price = 10, md_department = None,
                  md_userId = ''u1'', md_views = Some 4, md_created_at = None\<rparr>),
         (''m2'', \<lparr>md_name = ''Beer'', md_price = 4, md_department = Some Bar,
                  md_userId = ''u1'', md_views = None, md_created_at = None\<rparr>)],
      db_orders = [], db_kitchenOrders = [], db_barOrders = [], db_tableBills = [],
      db_pendingOrders = [(''p1'', ex_pending)], db_blobs = [],
      calls = 0, reads = 0, created = 0\<rparr>"

text \<open>The object literal \<open>{name: 'Tea', price: 2, department: undefined, userId: 'u1'}\<close>.\<close>

definition ex_tea :: MenuItemInput where
  "ex_tea =
     \<lparr>in_name = ''Tea'', in_price = 2, in_department = Undefined, in_userId = ''u1'',
      in_views = None\<rparr>"





text \<open>Surroundings in which every call to the remote service fails.\<close>

definition ex_down_env :: env where
  "ex_down_env = ex_env\<lparr>fault := (\<lambda>n. True)\<rparr>"





section \<open>Properties\<close>

lemma split_loop_filter:
  "split_loop menuItems items (ks, bs) =
     (ks @ filter (\<lambda>i. \<not> goes_to_bar menuItems i) items,
      bs @ filter (goes_to_bar menuItems) items)"
  by (induction items arbitrary: ks bs) simp_all

lemma splitItemsByDepartment_filter:
  "splitItemsByDepartment items menuItems =
     (filter (\<lambda>i. \<not> goes_to_bar menuItems i) items, filter (goes_to_bar menuItems) items)"
  by (simp add: splitItemsByDepartment_def split_loop_filter)

subsection \<open>Partition by department\<close>

text \<open>
  C3. \<open>splitItemsByDepartment\<close> puts an item in the bar's list exactly when the first menu
  item with its id is tagged \<open>bar\<close>, and in the kitchen's list otherwise, also when no menu
  item has its id. The two lists keep the order of the items, together they hold every
  item as often as the order does, and no item is in both.
\<close>

theorem splitItemsByDepartment_partitions:
  "splitItemsByDepartment items menuItems = (kitchenItems, barItems) \<Longrightarrow>
     kitchenItems = filter (\<lambda>item. \<not> goes_to_bar menuItems item) items
     \<and> barItems = filter (goes_to_bar menuItems) items
     \<and> mset kitchenItems + mset barItems = mset items
     \<and> set kitchenItems \<inter> set barItems = {}
     \<and> (\<forall>item \<in> set items.
           (case find (\<lambda>mi. mi_id mi = oi_id item) menuItems of
              None \<Rightarrow> item \<in> set kitchenItems \<and> item \<notin> set barItems
            | Some menuItem \<Rightarrow>
                if mi_department menuItem = Some Bar
                then item \<in> set barItems \<and> item \<notin> set kitchenItems
                else item \<in> set kitchenItems \<and> item \<notin> set barItems))"
  by (auto simp: splitItemsByDepartment_filter goes_to_bar_def split: option.splits)

theorem splitItemsByDepartment_partitions_witness:
  "splitItemsByDepartment [ex_pizza, ex_salad, ex_beer] ex_menu = ([ex_pizza, ex_salad], [ex_beer])
   \<and> mset [ex_pizza, ex_salad] + mset [ex_beer] = mset [ex_pizza, ex_salad, ex_beer]
   \<and> set [ex_pizza, ex_salad] \<inter> set [ex_beer] = {}
   \<and> find (\<lambda>mi. mi_id mi = oi_id ex_salad) ex_menu = None"
proof -
  have split: "splitItemsByDepartment [ex_pizza, ex_salad, ex_beer] ex_menu
                 = ([ex_pizza, ex_salad], [ex_beer])"
    by (simp add: splitItemsByDepartment_def goes_to_bar_def ex_menu_def ex_pizza_def
          ex_salad_def ex_beer_def)
  have nf: "find (\<lambda>mi. mi_id mi = oi_id ex_salad) ex_menu = None"
    by (simp add: ex_menu_def ex_salad_def)
  note parts = splitItemsByDepartment_partitions [OF split]
  from parts have all_there:
    "mset [ex_pizza, ex_salad] + mset [ex_beer] = mset [ex_pizza, ex_salad, ex_beer]"
    by (elim conjE) assumption
  from parts have apart: "set [ex_pizza, ex_salad] \<inter> set [ex_beer] = {}"
    by (elim conjE) assumption
  from split all_there apart nf show ?thesis
    by (intro conjI)
qed

subsection \<open>Department notifications\<close>

text \<open>
  C4. When no item of the order passes the department filter, \<open>sendOrderToDepartment\<close>
  returns \<open>true\<close> and issues no request.
\<close>

theorem sendOrderToDepartment_empty_is_noop:
  "departmentItems_of order department = [] \<Longrightarrow>
     sendOrderToDepartment f respond order department sent = (True, sent)"
  by (simp add: sendOrderToDepartment_def)

theorem sendOrderToDepartment_empty_is_noop_witness:
  "departmentItems_of ex_tagged_order Bar = []
   \<and> sendOrderToDepartment ex_fmt ex_respond ex_tagged_order Bar [] = (True, [])"
proof -
  have empty: "departmentItems_of ex_tagged_order Bar = []"
    by (simp add: departmentItems_of_def ex_tagged_order_def ex_order_def ex_pizza_def)
  from sendOrderToDepartment_empty_is_noop [OF empty] empty show ?thesis
    by simp
qed

text \<open>
  C5. The filter of \<open>sendOrderToDepartment\<close> reads the \<open>department\<close> property of the order
  item itself; no menu is consulted. So for an order none of whose items has that property,
  the call returns \<open>true\<close> and issues no request, for the kitchen and for the bar.
\<close>

theorem sendOrderToDepartment_untagged_items:
  "\<forall>item \<in> set (o_items order). oi_department item = None \<Longrightarrow>
     departmentItems_of order Kitchen = [] \<and> departmentItems_of order Bar = []
     \<and> sendOrderToDepartment f respond order Kitchen sent = (True, sent)
     \<and> sendOrderToDepartment f respond order Bar sent = (True, sent)"
  by (simp add: sendOrderToDepartment_def departmentItems_of_def)

theorem sendOrderToDepartment_untagged_items_witness:
  "map oi_department (o_items ex_order) = [None, None, None]
   \<and> sendOrderToDepartment ex_fmt ex_respond ex_order Kitchen [] = (True, [])
   \<and> sendOrderToDepartment ex_fmt ex_respond ex_order Bar [] = (True, [])"
proof -
  have tags: "map oi_department (o_items ex_order) = [None, None, None]"
    by (simp add: ex_order_def ex_pizza_def ex_salad_def ex_beer_def)
  have untagged: "\<forall>item \<in> set (o_items ex_order). oi_department item = None"
    by (simp add: ex_order_def ex_pizza_def ex_salad_def ex_beer_def)
  from sendOrderToDepartment_untagged_items [OF untagged] tags show ?thesis
    by simp
qed

subsection \<open>Payment confirmation\<close>



subsection \<open>The default department\<close>

lemma menuItem_of_doc_department:
  "mi_department (menuItem_of_doc (docId, d)) =
     Some (case md_department d of None \<Rightarrow> Kitchen | Some dep \<Rightarrow> dep)"
  by (simp add: menuItem_of_doc_def split: option.splits)

lemma getMenuItems_result:
  "getMenuItems e userId s =
     (if fault e (calls s) then Inl Unavailable
      else Inr (map menuItem_of_doc
                  (byId (filter (\<lambda>(i, d). md_userId d = userId) (db_menuItems s)))),
      s\<lparr>calls := Suc (calls s)\<rparr>)"
  by (simp add: getMenuItems_def getDocs_def remote_def andThen_def coll_menuItems_def)

text \<open>
  Reading: every menu item \<open>getMenuItems\<close> returns has a department, the stored one, or
  \<open>kitchen\<close> when the stored document has none.
\<close>

lemma getMenuItems_department:
  assumes "fst (getMenuItems e userId s) = Inr items" and "mi \<in> set items"
  shows "\<exists>docId d. (docId, d) \<in> set (db_menuItems s) \<and> md_userId d = userId
           \<and> mi_id mi = docId
           \<and> mi_department mi =
               Some (case md_department d of None \<Rightarrow> Kitchen | Some dep \<Rightarrow> dep)"
proof -
  from assms obtain doc where doc: "doc \<in> set (db_menuItems s)"
      "md_userId (snd doc) = userId" "mi = menuItem_of_doc doc"
    by (auto simp: getMenuItems_result byId_def split: if_splits)
  obtain docId d where "doc = (docId, d)" by (cases doc)
  with doc have "(docId, d) \<in> set (db_menuItems s)" "md_userId d = userId"
      "mi_id mi = docId"
      "mi_department mi = Some (case md_department d of None \<Rightarrow> Kitchen | Some dep \<Rightarrow> dep)"
    by (simp_all add: menuItem_of_doc_department) (simp add: menuItem_of_doc_def)
  then show ?thesis by blast
qed

text \<open>
  Creating: an input object without the key \<open>department\<close> is stored with department
  \<open>kitchen\<close>.
\<close>

lemma addMenuItem_absent:
  "in_department item = Absent \<Longrightarrow> \<not> fault e (calls s) \<Longrightarrow>
     fst (addMenuItem e item s) = Inr (newId e (created s))
     \<and> db_menuItems (snd (addMenuItem e item s)) =
         db_menuItems s @ [(newId e (created s),
           \<lparr>md_name = in_name item, md_price = in_price item, md_department = Some Kitchen,
            md_userId = in_userId item, md_views = in_views item,
            md_created_at = Some (clock e (reads s))\<rparr>)]"
  by (simp add: addMenuItem_def addMenuItem_department_def now_def serialize_def addDoc_def
        remote_def coll_menuItems_def Let_def)

text \<open>
  C7. The reading half holds (\<open>getMenuItems_department\<close>), and so does creating from an
  object without the key (\<open>addMenuItem_absent\<close>). It fails for an input whose \<open>department\<close>
  is there and \<open>undefined\<close>: the spread \<open>...item\<close> comes after the default and puts
  \<open>undefined\<close> back, so \<open>addDoc\<close> is handed \<open>department: undefined\<close>. Firestore then refuses
  the document, or, with \<open>ignoreUndefinedProperties\<close>, stores it without a department; in
  neither case is \<open>kitchen\<close> stored.
\<close>

theorem addMenuItem_undefined_department:
  "addMenuItem_department ex_tea = Undefined
   \<and> fst (addMenuItem ex_env ex_tea ex_store) = Inl InvalidArgument
   \<and> db_menuItems (snd (addMenuItem ex_env ex_tea ex_store)) = db_menuItems ex_store
   \<and> fst (addMenuItem (ex_env\<lparr>ignoreUndefinedProperties := True\<rparr>) ex_tea ex_store)
       = Inr ''a0''
   \<and> map (\<lambda>(i, d). (i, md_department d))
        (db_menuItems
           (snd (addMenuItem (ex_env\<lparr>ignoreUndefinedProperties := True\<rparr>) ex_tea ex_store)))
       = [(''m1'', None), (''m2'', Some Bar), (''a0'', None)]"
  by (simp add: addMenuItem_def addMenuItem_department_def now_def serialize_def addDoc_def
        remote_def coll_menuItems_def Let_def ex_tea_def ex_env_def ex_store_def)

subsection \<open>Listing department orders\<close>

lemma getKitchenOrders_result:
  "getKitchenOrders e userId s =
     (if fault e (calls s) then Inl Unavailable
      else Inr (map departmentOrder_of_doc
                  (orderByDesc dd_createdAt
                     (filter (\<lambda>(i, d). dd_userId d = userId) (db_kitchenOrders s)))),
      s\<lparr>calls := Suc (calls s)\<rparr>)"
  by (simp add: getKitchenOrders_def getDocs_def remote_def andThen_def coll_kitchenOrders_def)

lemma getBarOrders_result:
  "getBarOrders e userId s =
     (if fault e (calls s) then Inl Unavailable
      else Inr (map departmentOrder_of_doc
                  (orderByDesc dd_createdAt
                     (filter (\<lambda>(i, d). dd_userId d = userId) (db_barOrders s)))),
      s\<lparr>calls := Suc (calls s)\<rparr>)"
  by (simp add: getBarOrders_def getDocs_def remote_def andThen_def coll_barOrders_def)


lemma sorted_map_weaken:
  "sorted (map f xs) \<Longrightarrow> (\<And>x y. f x \<le> f y \<Longrightarrow> g x \<le> g y) \<Longrightarrow> sorted (map g xs)"
  by (induction xs) auto

lemma orderByDesc_descending:
  "sorted (rev (map (\<lambda>(i, d). field d) (orderByDesc field ds)))"
proof -
  let ?key = "\<lambda>(i :: string, d). (field d, i)"
  have "sorted (map ?key (sort_key ?key ds))" by simp
  then have "sorted (map (\<lambda>(i, d). field d) (sort_key ?key ds))"
    by (rule sorted_map_weaken) (auto simp: less_eq_prod_def)
  then show ?thesis
    by (simp add: orderByDesc_def rev_map)
qed

lemma listing_descending:
  "sorted (rev (map do_createdAt (map departmentOrder_of_doc (orderByDesc dd_createdAt ds))))"
proof -
  have "map do_createdAt (map departmentOrder_of_doc xs) = map (\<lambda>(i, d). dd_createdAt d) xs" for xs
    by (simp add: departmentOrder_of_doc_def case_prod_unfold)
  then show ?thesis by (simp only: orderByDesc_descending)
qed







subsection \<open>Table bills\<close>

lemma foldl_add_sum: "foldl (\<lambda>sum x. sum + f x) (a :: rat) xs = a + sum_list (map f xs)"
  by (induction xs arbitrary: a) simp_all

lemma getTableBill_result:
  "getTableBill e userId tableNumber s =
     (if fault e (calls s) then Inl Unavailable
      else Inr (case take 1 (byId (filter
                   (\<lambda>(i, d). tb_userId d = userId \<and> tb_tableNumber d = tableNumber
                              \<and> tb_status d = ''active'') (db_tableBills s))) of
                  [] \<Rightarrow> None | doc # rest \<Rightarrow> Some doc),
      s\<lparr>calls := Suc (calls s)\<rparr>)"
  by (simp add: getTableBill_def getDocs_def remote_def andThen_def coll_tableBills_def)








subsection \<open>Statistics\<close>

lemma getOrders_result:
  "getOrders e userId s =
     (if fault e (calls s) then Inl Unavailable
      else Inr (map order_of_doc
                  (orderByDesc od_timestamp
                     (filter (\<lambda>(i, d). od_userId d = userId) (db_orders s)))),
      s\<lparr>calls := Suc (calls s)\<rparr>)"
  by (simp add: getOrders_def getDocs_def remote_def andThen_def coll_orders_def)

lemma getMenuStats_try_result:
  "getMenuStats_try e userId s =
     (if fault e (calls s) \<or> fault e (Suc (calls s)) then Inl Unavailable
      else Inr (computeStats e
             (map order_of_doc (orderByDesc od_timestamp
                     (filter (\<lambda>(i, d). od_userId d = userId) (db_orders s))))
             (map menuItem_of_doc
                  (byId (filter (\<lambda>(i, d). md_userId d = userId) (db_menuItems s))))),
      s\<lparr>calls := Suc (Suc (calls s))\<rparr>)"
  by (simp add: getMenuStats_try_def getOrders_result getMenuItems_result)

lemma getMenuStats_never_fails: "\<exists>stats. fst (getMenuStats e userId s) = Inr stats"
  by (cases "getMenuStats_try e userId s") (auto simp: getMenuStats_def split: sum.splits)

lemma object_entries_Nil: "object_entries [] = []"
  by (simp add: object_entries_def)

lemma computeStats_no_orders:
  "computeStats e [] menuItems =
     \<lparr>totalOrders = 0, totalRevenue = 0,
      totalViews = sum_list (map (\<lambda>item. num_or (mi_views item) 0) menuItems),
      popularItems = [], recentOrders = [], monthlyRevenue = []\<rparr>"
  by (simp add: computeStats_def calculateMonthlyRevenue_def object_entries_Nil slice_last_def
        foldl_add_sum)

lemma sum_list_byId: "sum_list (map f (byId ds)) = sum_list (map (f :: _ \<Rightarrow> rat) ds)"
proof -
  have "mset (map f (byId ds)) = mset (map f ds)" by (simp add: byId_def)
  then show ?thesis by (metis sum_mset_sum_list)
qed

lemma getMenuStats_no_orders:
  assumes "\<not> fault e (calls s)" "\<not> fault e (Suc (calls s))"
    and "filter (\<lambda>(i, d). od_userId d = userId) (db_orders s) = []"
  shows "fst (getMenuStats e userId s) =
     Inr \<lparr>totalOrders = 0, totalRevenue = 0,
      totalViews = sum_list (map (\<lambda>(i, d). num_or (md_views d) 0)
                     (filter (\<lambda>(i, d). md_userId d = userId) (db_menuItems s))),
      popularItems = [], recentOrders = [], monthlyRevenue = []\<rparr>"
proof -
  have v: "(\<lambda>item. num_or (mi_views item) 0) \<circ> menuItem_of_doc = (\<lambda>(i, d). num_or (md_views d) 0)"
    by (rule ext) (simp add: menuItem_of_doc_def split: prod.splits)
  show ?thesis
    using assms
    by (simp add: getMenuStats_def getMenuStats_try_result orderByDesc_def
          computeStats_no_orders v sum_list_byId)
qed

lemma getMenuStats_on_failure:
  "fault e (calls s) \<or> fault e (Suc (calls s)) \<Longrightarrow>
     fst (getMenuStats e userId s) =
       Inr \<lparr>totalOrders = 0, totalRevenue = 0, totalViews = 0, popularItems = [],
            recentOrders = [], monthlyRevenue = []\<rparr>"
  by (auto simp add: getMenuStats_def getMenuStats_try_result emptyStats_def)

lemma others_propagate:
  assumes "fault e (calls s)"
  shows "isl (fst (getMenuItems e userId s))"
    and "isl (fst (addMenuItem e item s))"
    and "isl (fst (approvePendingOrder e pendingOrderId pendingOrder s))"
    and "isl (fst (getKitchenOrders e userId s))"
    and "isl (fst (getBarOrders e userId s))"
    and "isl (fst (addOrder e order s))"
    and "isl (fst (getOrders e userId s))"
    and "isl (fst (addToTableBill e userId tableNumber items s))"
    and "isl (fst (getTableBill e userId tableNumber s))"
    and "isl (fst (markOrderAsComplete e orderId department s))"
    and "isl (fst (uploadImage e file path s))"
proof -
  show "isl (fst (getMenuItems e userId s))"
    using assms by (simp add: getMenuItems_result)
  show "isl (fst (addMenuItem e item s))"
    using assms by (simp add: addMenuItem_def now_def addDoc_def remote_def Let_def
        split: sum.splits)
  show "isl (fst (addOrder e order s))"
    using assms by (simp add: addOrder_def now_def addDoc_def remote_def)
  show "isl (fst (approvePendingOrder e pendingOrderId pendingOrder s))"
    using assms by (simp add: approvePendingOrder_def addOrder_def now_def addDoc_def
        remote_def andThen_def)
  show "isl (fst (getKitchenOrders e userId s))"
    using assms by (simp add: getKitchenOrders_result)
  show "isl (fst (getBarOrders e userId s))"
    using assms by (simp add: getBarOrders_result)
  show "isl (fst (getOrders e userId s))"
    using assms by (simp add: getOrders_result)
  show "isl (fst (getTableBill e userId tableNumber s))"
    using assms by (simp add: getTableBill_result)
  show "isl (fst (addToTableBill e userId tableNumber items s))"
    using assms by (simp add: addToTableBill_def getTableBill_result andThen_def)
  show "isl (fst (markOrderAsComplete e orderId department s))"
    using assms by (simp add: markOrderAsComplete_def getDocs_def remote_def andThen_def)
  show "isl (fst (uploadImage e file path s))"
    using assms by (simp add: uploadImage_def remote_def)
qed


text \<open>
  C9. \<open>getMenuStats\<close> never ends in an error. For an owner without orders, when both reads
  succeed, it returns zero orders, zero revenue, the sum of the view counters of the owner's
  menu items (a missing counter counts 0) and three empty lists. When one of its two reads
  fails it returns the statistics that are zero and empty throughout. Every other operation
  of the ledger ends in an error when its first call to the remote service fails.
\<close>

theorem getMenuStats_fail_safe:
  "(\<exists>stats. fst (getMenuStats e userId s) = Inr stats)
   \<and> (\<not> fault e (calls s) \<and> \<not> fault e (Suc (calls s))
        \<and> filter (\<lambda>(i, d). od_userId d = userId) (db_orders s) = [] \<longrightarrow>
      fst (getMenuStats e userId s) =
        Inr \<lparr>totalOrders = 0, totalRevenue = 0,
             totalViews = sum_list (map (\<lambda>(i, d). num_or (md_views d) 0)
                            (filter (\<lambda>(i, d). md_userId d = userId) (db_menuItems s))),
             popularItems = [], recentOrders = [], monthlyRevenue = []\<rparr>)
   \<and> (fault e (calls s) \<or> fault e (Suc (calls s)) \<longrightarrow>
      fst (getMenuStats e userId s) =
        Inr \<lparr>totalOrders = 0, totalRevenue = 0, totalViews = 0, popularItems = [],
             recentOrders = [], monthlyRevenue = []\<rparr>)
   \<and> (fault e (calls s) \<longrightarrow>
        isl (fst (getMenuItems e userId s))
      \<and> isl (fst (addMenuItem e item s))
      \<and> isl (fst (approvePendingOrder e pendingOrderId pendingOrder s))
      \<and> isl (fst (getKitchenOrders e userId s))
      \<and> isl (fst (getBarOrders e userId s))
      \<and> isl (fst (addOrder e order s))
      \<and> isl (fst (getOrders e userId s))
      \<and> isl (fst (addToTableBill e userId tableNumber items s))
      \<and> isl (fst (getTableBill e userId tableNumber s))
      \<and> isl (fst (markOrderAsComplete e orderId department s))
      \<and> isl (fst (uploadImage e file path s)))"
  using getMenuStats_never_fails [of e userId s]
    getMenuStats_no_orders [of e s userId]
    getMenuStats_on_failure [of e s userId]
    others_propagate [of e s]
  by blast

theorem getMenuStats_fail_safe_witness:
  "fst (getMenuStats ex_env ''u1'' ex_store) =
     Inr \<lparr>totalOrders = 0, totalRevenue = 0, totalViews = 4, popularItems = [],
          recentOrders = [], monthlyRevenue = []\<rparr>
   \<and> fault ex_down_env (calls ex_store) = True
   \<and> fst (getMenuStats ex_down_env ''u1'' ex_store) =
       Inr \<lparr>totalOrders = 0, totalRevenue = 0, totalViews = 0, popularItems = [],
            recentOrders = [], monthlyRevenue = []\<rparr>
   \<and> isl (fst (getOrders ex_down_env ''u1'' ex_store))
   \<and> isl (fst (approvePendingOrder ex_down_env ''p1'' ex_pending ex_store))"
proof -
  have ok: "\<not> fault ex_env (calls ex_store) \<and> \<not> fault ex_env (Suc (calls ex_store))
        \<and> filter (\<lambda>(i, d). od_userId d = ''u1'') (db_orders ex_store) = []"
    by (simp add: ex_env_def ex_store_def)
  have views: "sum_list (map (\<lambda>(i, d). num_or (md_views d) 0)
                 (filter (\<lambda>(i, d). md_userId d = ''u1'') (db_menuItems ex_store))) = 4"
    by (simp add: ex_store_def)
  have down: "fault ex_down_env (calls ex_store)"
    by (simp add: ex_down_env_def)
  note good = getMenuStats_fail_safe [of ex_env "''u1''" ex_store]
  note bad = getMenuStats_fail_safe [of ex_down_env "''u1''" ex_store _ "''p1''" ex_pending]
  from good ok views have a: "fst (getMenuStats ex_env ''u1'' ex_store) =
     Inr \<lparr>totalOrders = 0, totalRevenue = 0, totalViews = 4, popularItems = [],
          recentOrders = [], monthlyRevenue = []\<rparr>"
    by simp
  from bad down have b: "fst (getMenuStats ex_down_env ''u1'' ex_store) =
       Inr \<lparr>totalOrders = 0, totalRevenue = 0, totalViews = 0, popularItems = [],
            recentOrders = [], monthlyRevenue = []\<rparr>"
    by blast
  from bad down have c: "isl (fst (getOrders ex_down_env ''u1'' ex_store))"
    by blast
  from bad down have d: "isl (fst (approvePendingOrder ex_down_env ''p1'' ex_pending ex_store))"
    by blast
  from a b c d down show ?thesis by simp
qed

subsection \<open>Approving a pending order\<close>

lemma addDoc_result:
  "addDoc e c d s =
     (if fault e (calls s) then (Inl Unavailable, s\<lparr>calls := Suc (calls s)\<rparr>)
      else (Inr (newId e (created s)),
            docs_update c (\<lambda>ds. ds @ [(newId e (created s), d)])
              (s\<lparr>calls := Suc (calls s), created := Suc (created s)\<rparr>)))"
  by (simp add: addDoc_def remote_def Let_def)

lemma andThen_Inr:
  assumes "fst (andThen r f) = Inr y"
  obtains x where "fst r = Inr x" and "andThen r f = f x (snd r)"
  using assms by (cases r; cases "fst r") (auto simp: andThen_def)

lemma addOrder_effect:
  assumes "fst (addOrder e order s) = Inr orderId"
  shows "db_orders (snd (addOrder e order s)) =
           db_orders s @ [(orderId, order\<lparr>od_timestamp := clock e (reads s)\<rparr>)]"
    and "db_kitchenOrders (snd (addOrder e order s)) = db_kitchenOrders s"
    and "db_barOrders (snd (addOrder e order s)) = db_barOrders s"
    and "db_pendingOrders (snd (addOrder e order s)) = db_pendingOrders s"
    and "db_menuItems (snd (addOrder e order s)) = db_menuItems s"
  using assms
  by (auto simp: addOrder_def now_def addDoc_result coll_orders_def split: if_splits)

lemma getMenuItems_frame:
  "db_orders (snd (getMenuItems e userId s)) = db_orders s"
  "db_kitchenOrders (snd (getMenuItems e userId s)) = db_kitchenOrders s"
  "db_barOrders (snd (getMenuItems e userId s)) = db_barOrders s"
  "db_pendingOrders (snd (getMenuItems e userId s)) = db_pendingOrders s"
  "db_menuItems (snd (getMenuItems e userId s)) = db_menuItems s"
  by (simp_all add: getMenuItems_result)

lemma getMenuItems_Inr:
  "fst (getMenuItems e userId s) = Inr items \<Longrightarrow>
     items = map menuItem_of_doc (byId (filter (\<lambda>(i, d). md_userId d = userId) (db_menuItems s)))"
  by (auto simp: getMenuItems_result split: if_splits)

lemma sendToDepartment_kitchen:
  assumes "fst (sendToDepartment e orderId userId items Kitchen s) = Inr u"
  shows "\<exists>docId t. db_kitchenOrders (snd (sendToDepartment e orderId userId items Kitchen s)) =
           db_kitchenOrders s @
             [(docId, \<lparr>dd_orderId = orderId, dd_userId = userId, dd_items = items,
                dd_status = ''pending'', dd_createdAt = t, dd_department = Kitchen,
                dd_completedAt = None\<rparr>)]"
    and "db_orders (snd (sendToDepartment e orderId userId items Kitchen s)) = db_orders s"
    and "db_barOrders (snd (sendToDepartment e orderId userId items Kitchen s)) = db_barOrders s"
    and "db_pendingOrders (snd (sendToDepartment e orderId userId items Kitchen s)) = db_pendingOrders s"
  using assms
  by (auto simp: sendToDepartment_def now_def addDoc_result andThen_def coll_kitchenOrders_def
      split: if_splits)

lemma sendToDepartment_bar:
  assumes "fst (sendToDepartment e orderId userId items Bar s) = Inr u"
  shows "\<exists>docId t. db_barOrders (snd (sendToDepartment e orderId userId items Bar s)) =
           db_barOrders s @
             [(docId, \<lparr>dd_orderId = orderId, dd_userId = userId, dd_items = items,
                dd_status = ''pending'', dd_createdAt = t, dd_department = Bar,
                dd_completedAt = None\<rparr>)]"
    and "db_orders (snd (sendToDepartment e orderId userId items Bar s)) = db_orders s"
    and "db_kitchenOrders (snd (sendToDepartment e orderId userId items Bar s)) = db_kitchenOrders s"
    and "db_pendingOrders (snd (sendToDepartment e orderId userId items Bar s)) = db_pendingOrders s"
  using assms
  by (auto simp: sendToDepartment_def now_def addDoc_result andThen_def coll_barOrders_def
      split: if_splits)

lemma addToTableBill_frame:
  "db_orders (snd (addToTableBill e userId tableNumber items s)) = db_orders s"
  "db_kitchenOrders (snd (addToTableBill e userId tableNumber items s)) = db_kitchenOrders s"
  "db_barOrders (snd (addToTableBill e userId tableNumber items s)) = db_barOrders s"
  "db_pendingOrders (snd (addToTableBill e userId tableNumber items s)) = db_pendingOrders s"
  by (simp_all add: addToTableBill_def getTableBill_result andThen_def Let_def now_def
        updateDoc_def remote_def addDoc_result coll_tableBills_def
        split: option.splits prod.splits list.splits)

lemma deleteDoc_pending:
  assumes "fst (deleteDoc e coll_pendingOrders docId s) = Inr u"
  shows "db_pendingOrders (snd (deleteDoc e coll_pendingOrders docId s)) =
           filter (\<lambda>(i, d). i \<noteq> docId) (db_pendingOrders s)"
    and "db_orders (snd (deleteDoc e coll_pendingOrders docId s)) = db_orders s"
    and "db_kitchenOrders (snd (deleteDoc e coll_pendingOrders docId s)) = db_kitchenOrders s"
    and "db_barOrders (snd (deleteDoc e coll_pendingOrders docId s)) = db_barOrders s"
  using assms
  by (auto simp: deleteDoc_def remote_def coll_pendingOrders_def split: if_splits bool.splits)


text \<open>
  C1. When \<open>approvePendingOrder\<close> returns the id of the new order, the store holds one new
  order document under that id, approved and with payment pending; for each department
  whose part of the items (as \<open>splitItemsByDepartment\<close> divides them against the owner's
  menu) is not empty, exactly one new record in that department's collection, pending,
  referring to the new order and holding that part; no new record for a department whose
  part is empty; and no pending order under the id that was passed.
\<close>

theorem approvePendingOrder_department_records:
  assumes approved: "fst (approvePendingOrder e pendingOrderId pendingOrder s) = Inr orderId"
    and parts: "splitItemsByDepartment (po_items pendingOrder)
              (map menuItem_of_doc
                 (byId (filter (\<lambda>(i, d). md_userId d = po_userId pendingOrder) (db_menuItems s))))
            = (kitchenItems, barItems)"
  shows "(\<exists>t. db_orders (snd (approvePendingOrder e pendingOrderId pendingOrder s)) =
            db_orders s @
              [(orderId, \<lparr>od_id = Some (po_id pendingOrder), od_userId = po_userId pendingOrder,
                 od_tableNumber = po_tableNumber pendingOrder, od_items = po_items pendingOrder,
                 od_totalAmount = po_totalAmount pendingOrder, od_status = ''approved'',
                 od_paymentStatus = ''pending'', od_timestamp = t\<rparr>)])
     \<and> (kitchenItems \<noteq> [] \<longrightarrow>
          (\<exists>docId t. db_kitchenOrders (snd (approvePendingOrder e pendingOrderId pendingOrder s)) =
             db_kitchenOrders s @
               [(docId, \<lparr>dd_orderId = orderId, dd_userId = po_userId pendingOrder,
                  dd_items = kitchenItems, dd_status = ''pending'', dd_createdAt = t,
                  dd_department = Kitchen, dd_completedAt = None\<rparr>)]))
     \<and> (kitchenItems = [] \<longrightarrow>
          db_kitchenOrders (snd (approvePendingOrder e pendingOrderId pendingOrder s)) =
            db_kitchenOrders s)
     \<and> (barItems \<noteq> [] \<longrightarrow>
          (\<exists>docId t. db_barOrders (snd (approvePendingOrder e pendingOrderId pendingOrder s)) =
             db_barOrders s @
               [(docId, \<lparr>dd_orderId = orderId, dd_userId = po_userId pendingOrder,
                  dd_items = barItems, dd_status = ''pending'', dd_createdAt = t,
                  dd_department = Bar, dd_completedAt = None\<rparr>)]))
     \<and> (barItems = [] \<longrightarrow>
          db_barOrders (snd (approvePendingOrder e pendingOrderId pendingOrder s)) =
            db_barOrders s)
     \<and> db_pendingOrders (snd (approvePendingOrder e pendingOrderId pendingOrder s)) =
          filter (\<lambda>(i, d). i \<noteq> pendingOrderId) (db_pendingOrders s)
     \<and> pendingOrderId \<notin> fst ` set (db_pendingOrders
                                     (snd (approvePendingOrder e pendingOrderId pendingOrder s)))"
proof -
  define uid where "uid = po_userId pendingOrder"
  define tn where "tn = po_tableNumber pendingOrder"
  define its where "its = po_items pendingOrder"
  define od where "od = \<lparr>od_id = Some (po_id pendingOrder), od_userId = uid,
                 od_tableNumber = tn, od_items = its,
                 od_totalAmount = po_totalAmount pendingOrder, od_status = ''approved'',
                 od_paymentStatus = ''pending'', od_timestamp = clock e (reads s)\<rparr>"
  define s1 where "s1 = s\<lparr>reads := Suc (reads s)\<rparr>"
  define k6 where "k6 = (\<lambda>oid (u :: unit) s7. (Inr oid :: error + string, s7 :: store))"
  define k5 where "k5 = (\<lambda>oid (u :: unit) s6.
                          andThen (deleteDoc e coll_pendingOrders pendingOrderId s6) (k6 oid))"
  define k4 where "k4 = (\<lambda>oid (u :: unit) s5. andThen (addToTableBill e uid tn its s5) (k5 oid))"
  define step4 where "step4 = (\<lambda>oid bs s4. if length bs > 0
                                  then sendToDepartment e oid uid bs Bar s4 else (Inr (), s4))"
  define k3 where "k3 = (\<lambda>oid bs (u :: unit) s4. andThen (step4 oid bs s4) (k4 oid))"
  define step3 where "step3 = (\<lambda>oid ks s3. if length ks > 0
                                  then sendToDepartment e oid uid ks Kitchen s3 else (Inr (), s3))"
  define k2 where "k2 = (\<lambda>oid menu s3.
                          let (ks, bs) = splitItemsByDepartment its menu
                          in andThen (step3 oid ks s3) (k3 oid bs))"
  define k1 where "k1 = (\<lambda>oid s2. andThen (getMenuItems e uid s2) (k2 oid))"
  define A where "A = approvePendingOrder e pendingOrderId pendingOrder s"
  have A1: "A = andThen (addOrder e od s1) k1"
    unfolding A_def k1_def k2_def k3_def k4_def k5_def k6_def step3_def step4_def od_def
      s1_def uid_def tn_def its_def approvePendingOrder_def now_def
    by (simp add: Let_def)
  have ok: "fst A = Inr orderId" using approved by (simp add: A_def)
  define s2 where "s2 = snd (addOrder e od s1)"
  from ok obtain oid where r1: "fst (addOrder e od s1) = Inr oid" and A2: "A = k1 oid s2"
    unfolding A1 s2_def by (rule andThen_Inr) auto
  define s3 where "s3 = snd (getMenuItems e uid s2)"
  from ok obtain menu where r2: "fst (getMenuItems e uid s2) = Inr menu"
    and A3: "A = k2 oid menu s3"
    unfolding A2 k1_def s3_def by (rule andThen_Inr) auto
  have m2: "db_menuItems s2 = db_menuItems s"
    using addOrder_effect(5) [OF r1] by (simp add: s2_def s1_def)
  have menu: "menu = map menuItem_of_doc
                 (byId (filter (\<lambda>(i, d). md_userId d = uid) (db_menuItems s)))"
    using getMenuItems_Inr [OF r2] m2 by simp
  have A4: "A = andThen (step3 oid kitchenItems s3) (k3 oid barItems)"
    using parts menu by (simp add: A3 k2_def uid_def its_def)
  define s4 where "s4 = snd (step3 oid kitchenItems s3)"
  from ok obtain u3 where r3: "fst (step3 oid kitchenItems s3) = Inr u3"
    and A5: "A = andThen (step4 oid barItems s4) (k4 oid)"
    unfolding A4 s4_def k3_def by (rule andThen_Inr) auto
  define s5 where "s5 = snd (step4 oid barItems s4)"
  from ok obtain u4 where r4: "fst (step4 oid barItems s4) = Inr u4"
    and A6: "A = andThen (addToTableBill e uid tn its s5) (k5 oid)"
    unfolding A5 s5_def k4_def by (rule andThen_Inr) auto
  define s6 where "s6 = snd (addToTableBill e uid tn its s5)"
  from ok obtain u5 where r5: "fst (addToTableBill e uid tn its s5) = Inr u5"
    and A7: "A = andThen (deleteDoc e coll_pendingOrders pendingOrderId s6) (k6 oid)"
    unfolding A6 s6_def k5_def by (rule andThen_Inr) auto
  define s7 where "s7 = snd (deleteDoc e coll_pendingOrders pendingOrderId s6)"
  from ok obtain u6 where r6: "fst (deleteDoc e coll_pendingOrders pendingOrderId s6) = Inr u6"
    and A8: "A = (Inr oid, s7)"
    unfolding A7 s7_def k6_def by (rule andThen_Inr) auto
  from ok A8 have oid: "oid = orderId" and final: "snd A = s7" by simp_all
  text \<open>the orders\<close>
  have o2: "db_orders s2 = db_orders s @ [(oid, od\<lparr>od_timestamp := clock e (Suc (reads s))\<rparr>)]"
    using addOrder_effect(1) [OF r1] by (simp add: s2_def s1_def)
  have o3: "db_orders s3 = db_orders s2"
    by (simp add: s3_def getMenuItems_frame)
  have o4: "db_orders s4 = db_orders s3"
    using r3 sendToDepartment_kitchen(2) [of e oid uid kitchenItems s3]
    by (auto simp: s4_def step3_def split: if_splits)
  have o5: "db_orders s5 = db_orders s4"
    using r4 sendToDepartment_bar(2) [of e oid uid barItems s4]
    by (auto simp: s5_def step4_def split: if_splits)
  have o6: "db_orders s6 = db_orders s5"
    by (simp add: s6_def addToTableBill_frame)
  have o7: "db_orders s7 = db_orders s6"
    using deleteDoc_pending(2) [OF r6] by (simp add: s7_def)
  text \<open>the kitchen's records\<close>
  have k3: "db_kitchenOrders s3 = db_kitchenOrders s"
    using addOrder_effect(2) [OF r1] by (simp add: s3_def s2_def s1_def getMenuItems_frame)
  have k4: "kitchenItems \<noteq> [] \<Longrightarrow> \<exists>docId t. db_kitchenOrders s4 = db_kitchenOrders s3 @
             [(docId, \<lparr>dd_orderId = oid, dd_userId = uid, dd_items = kitchenItems,
                dd_status = ''pending'', dd_createdAt = t, dd_department = Kitchen,
                dd_completedAt = None\<rparr>)]"
    using r3 sendToDepartment_kitchen(1) [of e oid uid kitchenItems s3]
    by (simp add: s4_def step3_def)
  have k4': "kitchenItems = [] \<Longrightarrow> db_kitchenOrders s4 = db_kitchenOrders s3"
    by (simp add: s4_def step3_def)
  have k5: "db_kitchenOrders s5 = db_kitchenOrders s4"
    using r4 sendToDepartment_bar(3) [of e oid uid barItems s4]
    by (auto simp: s5_def step4_def split: if_splits)
  have k6: "db_kitchenOrders s6 = db_kitchenOrders s5"
    by (simp add: s6_def addToTableBill_frame)
  have k7: "db_kitchenOrders s7 = db_kitchenOrders s6"
    using deleteDoc_pending(3) [OF r6] by (simp add: s7_def)
  text \<open>the bar's records\<close>
  have b3: "db_barOrders s3 = db_barOrders s"
    using addOrder_effect(3) [OF r1] by (simp add: s3_def s2_def s1_def getMenuItems_frame)
  have b4: "db_barOrders s4 = db_barOrders s3"
    using r3 sendToDepartment_kitchen(3) [of e oid uid kitchenItems s3]
    by (auto simp: s4_def step3_def split: if_splits)
  have b5: "barItems \<noteq> [] \<Longrightarrow> \<exists>docId t. db_barOrders s5 = db_barOrders s4 @
             [(docId, \<lparr>dd_orderId = oid, dd_userId = uid, dd_items = barItems,
                dd_status = ''pending'', dd_createdAt = t, dd_department = Bar,
                dd_completedAt = None\<rparr>)]"
    using r4 sendToDepartment_bar(1) [of e oid uid barItems s4]
    by (simp add: s5_def step4_def)
  have b5': "barItems = [] \<Longrightarrow> db_barOrders s5 = db_barOrders s4"
    by (simp add: s5_def step4_def)
  have b6: "db_barOrders s6 = db_barOrders s5"
    by (simp add: s6_def addToTableBill_frame)
  have b7: "db_barOrders s7 = db_barOrders s6"
    using deleteDoc_pending(4) [OF r6] by (simp add: s7_def)
  text \<open>the pending orders\<close>
  have p7: "db_pendingOrders s7 = filter (\<lambda>(i, d). i \<noteq> pendingOrderId) (db_pendingOrders s6)"
    using deleteDoc_pending(1) [OF r6] by (simp add: s7_def)
  have p6: "db_pendingOrders s6 = db_pendingOrders s5"
    by (simp add: s6_def addToTableBill_frame)
  have p5: "db_pendingOrders s5 = db_pendingOrders s4"
    using r4 sendToDepartment_bar(4) [of e oid uid barItems s4]
    by (auto simp: s5_def step4_def split: if_splits)
  have p4: "db_pendingOrders s4 = db_pendingOrders s3"
    using r3 sendToDepartment_kitchen(4) [of e oid uid kitchenItems s3]
    by (auto simp: s4_def step3_def split: if_splits)
  have p3: "db_pendingOrders s3 = db_pendingOrders s"
    using addOrder_effect(4) [OF r1] by (simp add: s3_def s2_def s1_def getMenuItems_frame)
  have fo: "db_orders (snd A) =
              db_orders s @ [(orderId, od\<lparr>od_timestamp := clock e (Suc (reads s))\<rparr>)]"
    by (simp add: final o7 o6 o5 o4 o3 o2 oid)
  have fk: "db_kitchenOrders (snd A) = db_kitchenOrders s4"
    by (simp add: final k7 k6 k5)
  have fb: "db_barOrders (snd A) = db_barOrders s5"
    by (simp add: final b7 b6)
  have fp: "db_pendingOrders (snd A) =
              filter (\<lambda>(i, d). i \<noteq> pendingOrderId) (db_pendingOrders s)"
    by (simp add: final p7 p6 p5 p4 p3)
  have new_order: "\<exists>t. db_orders (snd A) =
            db_orders s @
              [(orderId, \<lparr>od_id = Some (po_id pendingOrder), od_userId = po_userId pendingOrder,
                 od_tableNumber = po_tableNumber pendingOrder, od_items = po_items pendingOrder,
                 od_totalAmount = po_totalAmount pendingOrder, od_status = ''approved'',
                 od_paymentStatus = ''pending'', od_timestamp = t\<rparr>)]"
    by (rule exI [of _ "clock e (Suc (reads s))"]) (simp add: fo od_def uid_def tn_def its_def)
  have kitchen_one: "kitchenItems \<noteq> [] \<longrightarrow>
          (\<exists>docId t. db_kitchenOrders (snd A) =
             db_kitchenOrders s @
               [(docId, \<lparr>dd_orderId = orderId, dd_userId = po_userId pendingOrder,
                  dd_items = kitchenItems, dd_status = ''pending'', dd_createdAt = t,
                  dd_department = Kitchen, dd_completedAt = None\<rparr>)])"
    using k4 by (simp add: fk k3 oid uid_def)
  have kitchen_none: "kitchenItems = [] \<longrightarrow> db_kitchenOrders (snd A) = db_kitchenOrders s"
    using k4' by (simp add: fk k3)
  have bar_one: "barItems \<noteq> [] \<longrightarrow>
          (\<exists>docId t. db_barOrders (snd A) =
             db_barOrders s @
               [(docId, \<lparr>dd_orderId = orderId, dd_userId = po_userId pendingOrder,
                  dd_items = barItems, dd_status = ''pending'', dd_createdAt = t,
                  dd_department = Bar, dd_completedAt = None\<rparr>)])"
    using b5 by (simp add: fb b4 b3 oid uid_def)
  have bar_none: "barItems = [] \<longrightarrow> db_barOrders (snd A) = db_barOrders s"
    using b5' by (simp add: fb b4 b3)
  have gone: "pendingOrderId \<notin> fst ` set (db_pendingOrders (snd A))"
    by (auto simp: fp)
  from new_order kitchen_one kitchen_none bar_one bar_none fp gone show ?thesis
    unfolding A_def by (intro conjI)
qed


lemma ex_menu_loaded:
  "map menuItem_of_doc
     (byId (filter (\<lambda>(i, d). md_userId d = po_userId ex_pending) (db_menuItems ex_store)))
   = [\<lparr>mi_id = ''m1'', mi_name = ''Pizza'', mi_price = 10, mi_department = Some Kitchen,
       mi_userId = ''u1'', mi_views = Some 4, mi_created_at = None\<rparr>,
      \<lparr>mi_id = ''m2'', mi_name = ''Beer'', mi_price = 4, mi_department = Some Bar,
       mi_userId = ''u1'', mi_views = None, mi_created_at = None\<rparr>]"
  by (simp add: ex_store_def ex_pending_def byId_def menuItem_of_doc_def)

lemma ex_split:
  "splitItemsByDepartment (po_items ex_pending)
     (map menuItem_of_doc
        (byId (filter (\<lambda>(i, d). md_userId d = po_userId ex_pending) (db_menuItems ex_store))))
   = ([ex_pizza, ex_salad], [ex_beer])"
  unfolding ex_menu_loaded
  by (simp add: ex_pending_def splitItemsByDepartment_def goes_to_bar_def ex_pizza_def
        ex_salad_def ex_beer_def)

lemma ex_approved: "fst (approvePendingOrder ex_env ''p1'' ex_pending ex_store) = Inr ''a0''"
  by (simp add: approvePendingOrder_def now_def addOrder_def addDoc_result getMenuItems_result
        andThen_def Let_def sendToDepartment_def addToTableBill_def getTableBill_result
        deleteDoc_def remote_def coll_orders_def coll_kitchenOrders_def coll_barOrders_def
        coll_tableBills_def coll_pendingOrders_def byId_def menuItem_of_doc_def
        splitItemsByDepartment_def goes_to_bar_def
        ex_env_def ex_store_def ex_pending_def ex_pizza_def ex_salad_def ex_beer_def)


theorem approvePendingOrder_department_records_witness:
  "fst (approvePendingOrder ex_env ''p1'' ex_pending ex_store) = Inr ''a0''
   \<and> splitItemsByDepartment (po_items ex_pending)
        (map menuItem_of_doc
           (byId (filter (\<lambda>(i, d). md_userId d = po_userId ex_pending) (db_menuItems ex_store))))
      = ([ex_pizza, ex_salad], [ex_beer])
   \<and> map (\<lambda>(i, d). (dd_orderId d, dd_department d, dd_items d))
        (db_kitchenOrders (snd (approvePendingOrder ex_env ''p1'' ex_pending ex_store)))
      = [(''a0'', Kitchen, [ex_pizza, ex_salad])]
   \<and> map (\<lambda>(i, d). (dd_orderId d, dd_department d, dd_items d))
        (db_barOrders (snd (approvePendingOrder ex_env ''p1'' ex_pending ex_store)))
      = [(''a0'', Bar, [ex_beer])]
   \<and> db_pendingOrders (snd (approvePendingOrder ex_env ''p1'' ex_pending ex_store)) = []"
proof -
  note effects = approvePendingOrder_department_records [OF ex_approved ex_split]
  have before: "db_kitchenOrders ex_store = []" "db_barOrders ex_store = []"
      "db_pendingOrders ex_store = [(''p1'', ex_pending)]"
    by (simp_all add: ex_store_def)
  from effects obtain kid kt where
    "db_kitchenOrders (snd (approvePendingOrder ex_env ''p1'' ex_pending ex_store)) =
       db_kitchenOrders ex_store @
         [(kid, \<lparr>dd_orderId = ''a0'', dd_userId = po_userId ex_pending,
                 dd_items = [ex_pizza, ex_salad], dd_status = ''pending'', dd_createdAt = kt,
                 dd_department = Kitchen, dd_completedAt = None\<rparr>)]"
    by auto
  then have kitchen: "map (\<lambda>(i, d). (dd_orderId d, dd_department d, dd_items d))
        (db_kitchenOrders (snd (approvePendingOrder ex_env ''p1'' ex_pending ex_store)))
      = [(''a0'', Kitchen, [ex_pizza, ex_salad])]"
    by (simp add: before)
  from effects obtain bid bt where
    "db_barOrders (snd (approvePendingOrder ex_env ''p1'' ex_pending ex_store)) =
       db_barOrders ex_store @
         [(bid, \<lparr>dd_orderId = ''a0'', dd_userId = po_userId ex_pending,
                 dd_items = [ex_beer], dd_status = ''pending'', dd_createdAt = bt,
                 dd_department = Bar, dd_completedAt = None\<rparr>)]"
    by auto
  then have bar: "map (\<lambda>(i, d). (dd_orderId d, dd_department d, dd_items d))
        (db_barOrders (snd (approvePendingOrder ex_env ''p1'' ex_pending ex_store)))
      = [(''a0'', Bar, [ex_beer])]"
    by (simp add: before)
  from effects have
    "db_pendingOrders (snd (approvePendingOrder ex_env ''p1'' ex_pending ex_store)) =
       filter (\<lambda>(i, d). i \<noteq> ''p1'') (db_pendingOrders ex_store)"
    by blast
  then have pending: "db_pendingOrders (snd (approvePendingOrder ex_env ''p1'' ex_pending ex_store)) = []"
    by (simp add: before)
  from ex_approved ex_split kitchen bar pending show ?thesis
    by (intro conjI)
qed

subsection \<open>Monthly revenue\<close>


































end
